theory Spec2Isabelle
  imports Main "HOL-Library.Multiset"
begin

section \<open>The real-time chat path of the users application\<close>

text \<open>
  The development covers users/consumers.py (the WebSocket consumer), users/signals.py
  (the post_save receiver), users/models.py (the Message model) and the chat page of
  users/views.py. The Django ORM, the Channels channel layer and the JSON decoder are
  libraries: they appear as the small interfaces the handlers call, with every raise of
  a handler a branch of the model.
\<close>

subsection \<open>Values\<close>

text \<open>
  What \<^verbatim>\<open>json.loads\<close> can return: None, a bool, an int, a float (kept as its
  literal), a str, a list or a dict. A decoded dict has one value per key, so an
  association list read with \<open>map_of\<close> represents it.
\<close>

datatype json =
    JNull
  | JBool bool
  | JInt int
  | JFloat string
  | JStr string
  | JList "json list"
  | JDict "(string \<times> json) list"

text \<open>
  The exceptions of the handlers and of the libraries they call. JSONDecodeError is a
  subclass of ValueError in Python; \<open>ValueError\<close> here stands for a ValueError that is no
  JSONDecodeError, and \<open>OtherError\<close> for an exception of any other class, by its name.
\<close>

datatype exn =
    AttributeError
  | ValueError
  | TypeError
  | OverflowError
  | KeyError
  | JSONDecodeError
  | RecursionError
  | DoesNotExist
  | DatabaseError
  | IntegrityError
  | SendError
  | OtherError string

text \<open>
  The outcome of \<^verbatim>\<open>json.loads(text_data)\<close> on a text frame: the decoder raises or
  returns a value. On text that is no JSON it raises JSONDecodeError; it also raises a
  plain ValueError (an integer literal longer than the interpreter's digit limit) and
  RecursionError (nesting too deep). The handler is modelled on this outcome.
\<close>

datatype decoded = Raises exn | Decoded json

text \<open>
  A row of the Message table. The column \<open>sender\<close> is a foreign key to User declared
  without \<^verbatim>\<open>null=True\<close>; the constraint is enforced when a row is inserted (see
  \<open>Message_objects_create\<close>), so the column type here admits the null that the
  constraint rejects.
\<close>

record message =
  sender :: "int option"
  content :: string
  timestamp :: nat

text \<open>The dict handed to \<^verbatim>\<open>group_send\<close>: its type and the two payload fields.\<close>

record event =
  etype :: string
  emessage :: string
  esender :: string

type_synonym channel = string

datatype conn_state = Connecting | Joined | Closed

text \<open>
  One Connection Session (one consumer instance): its state, whether a write to its
  client currently succeeds, and the frames written to the client so far (each the value
  given to \<^verbatim>\<open>json.dumps\<close>).
\<close>

record session =
  conn :: conn_state
  transport_ok :: bool
  outbox :: "json list"

text \<open>
  The state the handlers act on: the User table (primary key to email), the Message
  table in insertion order, whether the database answers reads and accepts writes, the
  clock read by \<^verbatim>\<open>auto_now_add\<close>, the channel layer's groups, the sessions by channel
  name, and the log of the events handed to \<^verbatim>\<open>group_send\<close>.
\<close>

record world =
  users :: "int \<rightharpoonup> string"
  messages :: "message list"
  db_readable :: bool
  db_writable :: bool
  clock :: nat
  groups :: "string \<Rightarrow> channel set"
  sessions :: "channel \<Rightarrow> session"
  sent :: "(string \<times> event) list"

text \<open>
  A handler either returns a value or raises; both leave a state behind, which is the
  state at the point of the return or of the raise.
\<close>

datatype 'a outcome = Return 'a world | Raise exn world

fun world_of :: "'a outcome \<Rightarrow> world" where
  "world_of (Return _ w) = w"
| "world_of (Raise _ w) = w"

fun raised :: "'a outcome \<Rightarrow> exn option" where
  "raised (Return _ _) = None"
| "raised (Raise e _) = Some e"

text \<open>
  How the ORM turns the value given as \<^verbatim>\<open>pk=\<close> into a key: it raises, or selects
  no row (\<open>None\<close>), or gives the integer key to look up. The conversion belongs to
  Django and is a parameter of the model.
\<close>

type_synonym pk_prep = "json \<Rightarrow> exn + int option"

subsection \<open>Settings and constants\<close>

definition CHAT_GROUP :: string where
  "CHAT_GROUP = ''chat_room''"

definition CHANNEL_LAYERS :: "(string \<times> string) list" where
  "CHANNEL_LAYERS = [(''default'', ''channels.layers.InMemoryChannelLayer'')]"

text \<open>\<^verbatim>\<open>get_channel_layer()\<close>: the backend configured under the default alias, or None.\<close>

definition get_channel_layer :: "string option" where
  "get_channel_layer = map_of CHANNEL_LAYERS ''default''"

subsection \<open>Python helpers\<close>

text \<open>\<^verbatim>\<open>str.isspace\<close> on the code points below 256.\<close>

definition py_isspace :: "char \<Rightarrow> bool" where
  "py_isspace c = (of_char c \<in> {9, 10, 11, 12, 13, 28, 29, 30, 31, 32, 133, 160 :: nat})"

definition strip :: "string \<Rightarrow> string" where
  "strip s = rev (dropWhile py_isspace (rev (dropWhile py_isspace s)))"

text \<open>\<^verbatim>\<open>dict.get(key, default)\<close>.\<close>

definition dict_get :: "(string \<times> json) list \<Rightarrow> string \<Rightarrow> json \<Rightarrow> json" where
  "dict_get kvs k d = (case map_of kvs k of None \<Rightarrow> d | Some v \<Rightarrow> v)"

subsection \<open>The consumer's outbound handler\<close>

text \<open>\<^verbatim>\<open>self.send(text_data=...)\<close>: the write to the client succeeds or raises.\<close>

definition send :: "session \<Rightarrow> json \<Rightarrow> exn + session" where
  "send s frame =
     (if transport_ok s then Inr (s\<lparr>outbox := outbox s @ [frame]\<rparr>) else Inl SendError)"

text \<open>\<^verbatim>\<open>ChatConsumer.chat_message\<close>: no handler surrounds the write.\<close>

definition chat_message :: "session \<Rightarrow> event \<Rightarrow> exn + session" where
  "chat_message s ev =
     send s (JDict [(''message'', JStr (emessage ev)), (''sender'', JStr (esender ev))])"

subsection \<open>The channel layer\<close>

text \<open>
  Modelled from the spec: the channel layer's \<^verbatim>\<open>group_add\<close> is library code that is
  not among the sources. Spec 4.1, join: adds member to room's set; no-op if already
  present.
\<close>

definition group_add :: "world \<Rightarrow> string \<Rightarrow> channel \<Rightarrow> world" where
  "group_add w g c = w\<lparr>groups := (groups w)(g := insert c (groups w g))\<rparr>"

text \<open>
  Modelled from the spec: the channel layer's \<^verbatim>\<open>group_discard\<close> is library code that
  is not among the sources. Spec 4.1, leave: removes member if present; no-op otherwise.
\<close>

definition group_discard :: "world \<Rightarrow> string \<Rightarrow> channel \<Rightarrow> world" where
  "group_discard w g c = w\<lparr>groups := (groups w)(g := groups w g - {c})\<rparr>"

text \<open>
  A consumer that receives a layer event calls the handler named by the event's type.
  An exception that leaves the handler ends that consumer: its session is closed. No
  code of the sources runs on that path, so nothing else changes. A session that is not
  joined has no running consumer and handles nothing.
\<close>

definition deliver :: "session \<Rightarrow> event \<Rightarrow> session" where
  "deliver s ev =
     (if conn s \<noteq> Joined then s
      else if etype ev = ''chat_message'' then
        (case chat_message s ev of Inr s' \<Rightarrow> s' | Inl e \<Rightarrow> s\<lparr>conn := Closed\<rparr>)
      else s\<lparr>conn := Closed\<rparr>)"

text \<open>
  Modelled from the spec: the channel layer's \<^verbatim>\<open>group_send\<close> is library code that is
  not among the sources. Spec 4.2, dispatch: takes the room's member snapshot and
  delivers the event to each member's Connection Session independently; a member not
  in the room at dispatch time never receives it. What a session does with the event is
  \<open>chat_message\<close> of the sources. The call is logged in \<open>sent\<close>.
\<close>

definition group_send :: "world \<Rightarrow> string \<Rightarrow> event \<Rightarrow> world" where
  "group_send w g ev =
     w\<lparr>sessions := (\<lambda>c. if c \<in> groups w g then deliver (sessions w c) ev else sessions w c),
       sent := sent w @ [(g, ev)]\<rparr>"

subsection \<open>users/signals.py\<close>

text \<open>
  \<^verbatim>\<open>instance.sender.email\<close>: the email of the row the foreign key points to.
\<close>

definition sender_email :: "world \<Rightarrow> message \<Rightarrow> exn + string" where
  "sender_email w inst =
     (case sender inst of
        None \<Rightarrow> Inl DoesNotExist
      | Some k \<Rightarrow> (case users w k of None \<Rightarrow> Inl DoesNotExist | Some e \<Rightarrow> Inr e))"

definition broadcast_message :: "world \<Rightarrow> message \<Rightarrow> bool \<Rightarrow> unit outcome" where
  "broadcast_message w inst created =
     (if \<not> created then Return () w
      else case get_channel_layer of
        None \<Rightarrow> Return () w
      | Some _ \<Rightarrow>
          (case sender_email w inst of
             Inl e \<Rightarrow> Raise e w
           | Inr email \<Rightarrow>
               Return () (group_send w CHAT_GROUP
                 \<lparr>etype = ''chat_message'', emessage = content inst, esender = email\<rparr>)))"

subsection \<open>users/models.py and the ORM calls on it\<close>

text \<open>
  The post_save signal of Message: users/apps.py imports users.signals when the app is
  ready, which registers \<open>broadcast_message\<close> as its one receiver.
\<close>

definition post_save :: "world \<Rightarrow> message \<Rightarrow> bool \<Rightarrow> unit outcome" where
  "post_save w inst created = broadcast_message w inst created"

text \<open>
  \<^verbatim>\<open>Message.objects.create(sender=..., content=...)\<close>: the insert fails when the
  database takes no writes, and is rejected when the sender is null or is no row of
  User; otherwise the row is appended with the current time and post_save fires with
  \<open>created = True\<close>.
\<close>

definition Message_objects_create :: "world \<Rightarrow> int option \<Rightarrow> string \<Rightarrow> message outcome" where
  "Message_objects_create w fk c =
     (if \<not> db_writable w then Raise DatabaseError w
      else case fk of
        None \<Rightarrow> Raise IntegrityError w
      | Some k \<Rightarrow>
          (if users w k = None then Raise IntegrityError w
           else
             (let inst = \<lparr>sender = Some k, content = c, timestamp = clock w\<rparr> in
              case post_save (w\<lparr>messages := messages w @ [inst]\<rparr>) inst True of
                Raise e w' \<Rightarrow> Raise e w'
              | Return _ w' \<Rightarrow> Return inst w')))"

text \<open>
  Saving a row that exists (an edit): the content of row \<open>i\<close> is replaced and post_save
  fires with \<open>created = False\<close>.
\<close>

definition Message_save :: "world \<Rightarrow> nat \<Rightarrow> string \<Rightarrow> unit outcome" where
  "Message_save w i c =
     (if \<not> db_writable w then Raise DatabaseError w
      else if i < length (messages w) then
        (let inst = (messages w ! i)\<lparr>content := c\<rparr> in
         post_save (w\<lparr>messages := (messages w)[i := inst]\<rparr>) inst False)
      else Raise DoesNotExist w)"

text \<open>\<^verbatim>\<open>User.objects.get(pk=...)\<close>: the key and the email of the row found.\<close>

definition User_objects_get :: "pk_prep \<Rightarrow> world \<Rightarrow> json \<Rightarrow> (int \<times> string) outcome" where
  "User_objects_get prep w v =
     (case prep v of
        Inl e \<Rightarrow> Raise e w
      | Inr key \<Rightarrow>
          (if \<not> db_readable w then Raise DatabaseError w
           else case key of
             None \<Rightarrow> Raise DoesNotExist w
           | Some k \<Rightarrow>
               (case users w k of
                  None \<Rightarrow> Raise DoesNotExist w
                | Some e \<Rightarrow> Return (k, e) w)))"

subsection \<open>users/consumers.py\<close>

text \<open>
  \<^verbatim>\<open>save_message\<close>: the body of the try block, then the one except clause, which
  turns DoesNotExist into the return value None.
\<close>

definition save_message_body :: "pk_prep \<Rightarrow> world \<Rightarrow> json \<Rightarrow> string \<Rightarrow> string option outcome" where
  "save_message_body prep w sender_id c =
     (case User_objects_get prep w sender_id of
        Raise e w' \<Rightarrow> Raise e w'
      | Return (k, email) w' \<Rightarrow>
          (case Message_objects_create w' (Some k) c of
             Raise e w'' \<Rightarrow> Raise e w''
           | Return _ w'' \<Rightarrow> Return (Some email) w''))"

definition save_message :: "pk_prep \<Rightarrow> world \<Rightarrow> json \<Rightarrow> string \<Rightarrow> string option outcome" where
  "save_message prep w sender_id c =
     (case save_message_body prep w sender_id c of
        Raise e w' \<Rightarrow> (if e = DoesNotExist then Return None w' else Raise e w')
      | Return r w' \<Rightarrow> Return r w')"

text \<open>\<^verbatim>\<open>sender_email or 'Anonymous'\<close>: None and the empty string are both falsy.\<close>

definition or_Anonymous :: "string option \<Rightarrow> string" where
  "or_Anonymous e = (case e of None \<Rightarrow> ''Anonymous'' | Some s \<Rightarrow> if s = [] then ''Anonymous'' else s)"

text \<open>
  \<^verbatim>\<open>ChatConsumer.receive\<close>. The try block decodes and reads the frame; its except
  clause catches JSONDecodeError and KeyError only, so any other exception of the decoder,
  the AttributeError of \<^verbatim>\<open>.get\<close> on a value that is no dict, and that of
  \<^verbatim>\<open>.strip\<close> on a value that is no str, leave the handler.
\<close>

definition receive :: "pk_prep \<Rightarrow> world \<Rightarrow> decoded \<Rightarrow> unit outcome" where
  "receive prep w frame =
     (case frame of
        Raises e \<Rightarrow> (if e = JSONDecodeError \<or> e = KeyError then Return () w else Raise e w)
      | Decoded data \<Rightarrow>
          (case data of
             JDict kvs \<Rightarrow>
               (case dict_get kvs ''message'' (JStr '''') of
                  JStr s \<Rightarrow>
                    (let c = strip s; sender_id = dict_get kvs ''sender_id'' JNull in
                     if c = [] then Return () w
                     else case save_message prep w sender_id c of
                       Raise e w' \<Rightarrow> Raise e w'
                     | Return email w' \<Rightarrow>
                         (case get_channel_layer of
                            None \<Rightarrow> Raise AttributeError w'
                          | Some _ \<Rightarrow>
                              Return () (group_send w' CHAT_GROUP
                                \<lparr>etype = ''chat_message'', emessage = c,
                                 esender = or_Anonymous email\<rparr>)))
                | _ \<Rightarrow> Raise AttributeError w)
           | _ \<Rightarrow> Raise AttributeError w))"

text \<open>\<^verbatim>\<open>self.accept()\<close>: the handshake completes and the session is joined.\<close>

definition accept :: "world \<Rightarrow> channel \<Rightarrow> world" where
  "accept w c = w\<lparr>sessions := (sessions w)(c := (sessions w c)\<lparr>conn := Joined\<rparr>)\<rparr>"

definition connect :: "world \<Rightarrow> channel \<Rightarrow> unit outcome" where
  "connect w c =
     (case get_channel_layer of
        None \<Rightarrow> Raise AttributeError w
      | Some _ \<Rightarrow> Return () (accept (group_add w CHAT_GROUP c) c))"

definition disconnect :: "world \<Rightarrow> channel \<Rightarrow> unit outcome" where
  "disconnect w c =
     (case get_channel_layer of
        None \<Rightarrow> Raise AttributeError w
      | Some _ \<Rightarrow> Return () (group_discard w CHAT_GROUP c))"


subsection \<open>users/views.py: the chat page\<close>

text \<open>
  \<^verbatim>\<open>order_by('-timestamp')\<close>: the rows by descending timestamp. The database is free in
  how it orders rows of equal timestamp; here they come in reverse insertion order.
\<close>

definition order_by_desc_timestamp :: "message list \<Rightarrow> message list" where
  "order_by_desc_timestamp ms = rev (sort_key timestamp ms)"

text \<open>
  \<^verbatim>\<open>ChatPageView.get\<close>: the value passed to the template as \<^verbatim>\<open>messages\<close>, that is
  \<^verbatim>\<open>reversed(list(Message.objects...order_by('-timestamp')[:50]))\<close>.
\<close>

definition ChatPageView_get :: "world \<Rightarrow> message list outcome" where
  "ChatPageView_get w =
     (if \<not> db_readable w then Raise DatabaseError w
      else Return (rev (take 50 (order_by_desc_timestamp (messages w)))) w)"

subsection \<open>Runs of the system\<close>

text \<open>
  What can happen to the system: a client connects, closes, sends a frame or loses its
  transport; an actor outside the consumer (the admin site registers Message and User)
  creates or edits a Message, adds or deletes a User; time passes; the database changes
  its availability.
\<close>

datatype action =
    Connect channel
  | Disconnect channel
  | Receive channel decoded
  | TransportLost channel
  | Create "int option" string
  | Edit nat string
  | AddUser int string
  | DeleteUser int
  | Tick
  | Database bool bool

definition close :: "world \<Rightarrow> channel \<Rightarrow> world" where
  "close w c = w\<lparr>sessions := (sessions w)(c := (sessions w c)\<lparr>conn := Closed\<rparr>)\<rparr>"

text \<open>
  One step. A handler runs only on a session in the state it serves; an exception that
  leaves \<open>receive\<close> ends the consumer. Deleting a User deletes the Messages that
  reference it (\<^verbatim>\<open>on_delete=models.CASCADE\<close>).
\<close>

fun step :: "pk_prep \<Rightarrow> world \<Rightarrow> action \<Rightarrow> world" where
  "step prep w (Connect c) =
     (if conn (sessions w c) = Connecting then world_of (connect w c) else w)"
| "step prep w (Disconnect c) =
     (if conn (sessions w c) = Joined then close (world_of (disconnect w c)) c else w)"
| "step prep w (Receive c frame) =
     (if conn (sessions w c) = Joined then
        (case receive prep w frame of Return _ w' \<Rightarrow> w' | Raise e w' \<Rightarrow> close w' c)
      else w)"
| "step prep w (TransportLost c) =
     w\<lparr>sessions := (sessions w)(c := (sessions w c)\<lparr>transport_ok := False\<rparr>)\<rparr>"
| "step prep w (Create fk c) = world_of (Message_objects_create w fk c)"
| "step prep w (Edit i c) = world_of (Message_save w i c)"
| "step prep w (AddUser k e) =
     (if db_writable w \<and> users w k = None then w\<lparr>users := (users w)(k \<mapsto> e)\<rparr> else w)"
| "step prep w (DeleteUser k) =
     (if db_writable w then
        w\<lparr>users := (users w)(k := None),
          messages := filter (\<lambda>m. sender m \<noteq> Some k) (messages w)\<rparr>
      else w)"
| "step prep w Tick = w\<lparr>clock := Suc (clock w)\<rparr>"
| "step prep w (Database r wr) = w\<lparr>db_readable := r, db_writable := wr\<rparr>"

definition run :: "pk_prep \<Rightarrow> world \<Rightarrow> action list \<Rightarrow> world" where
  "run prep w acts = foldl (step prep) w acts"

text \<open>The system at start: empty tables, no connection, nothing sent.\<close>

definition initial :: world where
  "initial = \<lparr>users = Map.empty, messages = [], db_readable = True, db_writable = True,
     clock = 0, groups = (\<lambda>_. {}),
     sessions = (\<lambda>_. \<lparr>conn = Connecting, transport_ok = True, outbox = []\<rparr>),
     sent = []\<rparr>"

definition senders_exist :: "world \<Rightarrow> bool" where
  "senders_exist w =
     (\<forall>m\<in>set (messages w). \<exists>k e. sender m = Some k \<and> users w k = Some e)"

subsection \<open>Concrete scenarios\<close>

text \<open>
  The key conversion of the scenarios: an integer is looked up as it is, null selects no
  row. The scenarios only pass integers and null.
\<close>

definition plain_pk :: pk_prep where
  "plain_pk v = (case v of JInt n \<Rightarrow> Inr (Some n) | JNull \<Rightarrow> Inr None | _ \<Rightarrow> Inl TypeError)"

definition joined :: session where
  "joined = \<lparr>conn = Joined, transport_ok = True, outbox = []\<rparr>"

text \<open>One user, and two clients A and B in the chat room.\<close>

definition demo :: world where
  "demo = \<lparr>users = [1 \<mapsto> ''ann@example.org''], messages = [], db_readable = True,
     db_writable = True, clock = 7,
     groups = (\<lambda>_. {})(''chat_room'' := {''A'', ''B''}),
     sessions = (\<lambda>_. \<lparr>conn = Connecting, transport_ok = True, outbox = []\<rparr>)
        (''A'' := joined, ''B'' := joined),
     sent = []\<rparr>"


text \<open>The frame \<^verbatim>\<open>{"message": "hello", "sender_id": 1}\<close>.\<close>

definition hello :: decoded where
  "hello = Decoded (JDict [(''message'', JStr ''hello''), (''sender_id'', JInt 1)])"

text \<open>The frame \<^verbatim>\<open>{"message": "hi", "sender_id": 99}\<close>: no user has key 99.\<close>

definition hi_from_99 :: decoded where
  "hi_from_99 = Decoded (JDict [(''message'', JStr ''hi''), (''sender_id'', JInt 99)])"

definition demo_acts :: "action list" where
  "demo_acts = [AddUser 1 ''ann@example.org'', Connect ''A'', Receive ''A'' hello,
     Receive ''A'' hi_from_99, Create None ''x'', AddUser 2 ''bob@example.org'', Tick,
     Create (Some 2) ''news'']"

text \<open>A table of 52 messages whose timestamps are a permutation of 0 to 51.\<close>

definition busy :: world where
  "busy = demo\<lparr>messages :=
     map (\<lambda>i. \<lparr>sender = Some 1, content = ''note'', timestamp = (7 * i) mod 52\<rparr>) [0..<52]\<rparr>"


section \<open>Auxiliary facts\<close>

lemma layer_configured [simp]:
  "get_channel_layer = Some ''channels.layers.InMemoryChannelLayer''"
  by (simp add: get_channel_layer_def CHANNEL_LAYERS_def)

text \<open>Stripping leaves nothing exactly when every character is whitespace.\<close>

lemma strip_Nil_iff: "strip s = [] \<longleftrightarrow> (\<forall>c\<in>set s. py_isspace c)"
proof
  assume "strip s = []"
  then have a: "dropWhile py_isspace (rev (dropWhile py_isspace s)) = []"
    by (simp add: strip_def)
  have "dropWhile py_isspace s = []"
  proof (rule ccontr)
    assume n: "dropWhile py_isspace s \<noteq> []"
    then have "\<not> py_isspace (hd (dropWhile py_isspace s))"
      by (rule hd_dropWhile)
    moreover have "hd (dropWhile py_isspace s) \<in> set (rev (dropWhile py_isspace s))"
      using n by simp
    ultimately show False
      using a by (metis dropWhile_eq_Nil_conv)
  qed
  then show "\<forall>c\<in>set s. py_isspace c"
    by (simp add: dropWhile_eq_Nil_conv)
next
  assume "\<forall>c\<in>set s. py_isspace c"
  then have d: "dropWhile py_isspace s = []"
    by simp
  show "strip s = []"
    unfolding strip_def d by simp
qed

lemma strip_hello: "strip ''hello'' = ''hello''"
  by (simp add: strip_def py_isspace_def)

lemma strip_hi: "strip ''hi'' = ''hi''"
  by (simp add: strip_def py_isspace_def)

text \<open>\<open>group_send\<close> touches the sessions and the log, nothing else.\<close>

lemma group_send_frame [simp]:
  "users (group_send w g ev) = users w"
  "messages (group_send w g ev) = messages w"
  "db_readable (group_send w g ev) = db_readable w"
  "db_writable (group_send w g ev) = db_writable w"
  "clock (group_send w g ev) = clock w"
  "groups (group_send w g ev) = groups w"
  "sent (group_send w g ev) = sent w @ [(g, ev)]"
  by (simp_all add: group_send_def)

lemma deliver_ok:
  "conn s = Joined \<Longrightarrow> transport_ok s \<Longrightarrow> etype ev = ''chat_message'' \<Longrightarrow>
   deliver s ev =
     s\<lparr>outbox := outbox s @ [JDict [(''message'', JStr (emessage ev)), (''sender'', JStr (esender ev))]]\<rparr>"
  by (simp add: deliver_def chat_message_def send_def)


lemma User_get_missing:
  "prep v = Inr key \<Longrightarrow> db_readable w \<Longrightarrow>
   (case key of None \<Rightarrow> True | Some k \<Rightarrow> users w k = None) \<Longrightarrow>
   User_objects_get prep w v = Raise DoesNotExist w"
  by (auto simp: User_objects_get_def split: option.splits)

text \<open>A create that passes the constraints appends the row and broadcasts it once.\<close>

lemma create_ok:
  assumes "db_writable w" "users w k = Some email"
  shows "Message_objects_create w (Some k) c =
    Return \<lparr>sender = Some k, content = c, timestamp = clock w\<rparr>
      (group_send
         (w\<lparr>messages := messages w @ [\<lparr>sender = Some k, content = c, timestamp = clock w\<rparr>]\<rparr>)
         CHAT_GROUP \<lparr>etype = ''chat_message'', emessage = c, esender = email\<rparr>)"
  using assms
  by (simp add: Message_objects_create_def post_save_def broadcast_message_def sender_email_def
      Let_def)

text \<open>
  Whatever its arguments, a create leaves the User table alone and either leaves the
  Message table alone or appends one row whose sender is a key of the User table.
\<close>

lemma create_cases:
  "users (world_of (Message_objects_create w fk c)) = users w \<and>
   (messages (world_of (Message_objects_create w fk c)) = messages w \<or>
    (\<exists>k. fk = Some k \<and> users w k \<noteq> None \<and>
       messages (world_of (Message_objects_create w fk c)) =
         messages w @ [\<lparr>sender = Some k, content = c, timestamp = clock w\<rparr>]))"
  by (auto simp: Message_objects_create_def post_save_def broadcast_message_def sender_email_def
      Let_def split: option.splits)

lemma save_message_cases:
  "users (world_of (save_message prep w v c)) = users w \<and>
   (messages (world_of (save_message prep w v c)) = messages w \<or>
    (\<exists>k. users w k \<noteq> None \<and>
       messages (world_of (save_message prep w v c)) =
         messages w @ [\<lparr>sender = Some k, content = c, timestamp = clock w\<rparr>]))"
proof -
  have g: "world_of (User_objects_get prep w v) = w"
    by (simp add: User_objects_get_def split: sum.splits option.splits)
  show ?thesis
  proof (cases "User_objects_get prep w v")
    case (Raise e w')
    then have "w' = w"
      using g by simp
    then show ?thesis
      using Raise by (simp add: save_message_def save_message_body_def)
  next
    case (Return r w')
    then have w': "w' = w"
      using g by simp
    obtain k email where r: "r = (k, email)"
      by (cases r)
    have sw: "world_of (save_message prep w v c) = world_of (Message_objects_create w (Some k) c)"
      using Return r w'
      by (simp add: save_message_def save_message_body_def split: outcome.splits)
    show ?thesis
      unfolding sw using create_cases[of w "Some k" c] by auto
  qed
qed

lemma receive_cases:
  "users (world_of (receive prep w frame)) = users w \<and>
   (messages (world_of (receive prep w frame)) = messages w \<or>
    (\<exists>k c. users w k \<noteq> None \<and>
       messages (world_of (receive prep w frame)) =
         messages w @ [\<lparr>sender = Some k, content = c, timestamp = clock w\<rparr>]))"
proof (cases frame)
  case (Raises e)
  then show ?thesis
    by (simp add: receive_def)
next
  case (Decoded data)
  show ?thesis
  proof (cases "\<exists>kvs s. data = JDict kvs \<and> dict_get kvs ''message'' (JStr []) = JStr s
      \<and> strip s \<noteq> []")
    case False
    then have "world_of (receive prep w frame) = w"
      using Decoded by (auto simp: receive_def Let_def split: json.splits)
    then show ?thesis
      by simp
  next
    case True
    then obtain kvs s where d: "data = JDict kvs"
        "dict_get kvs ''message'' (JStr []) = JStr s" "strip s \<noteq> []"
      by blast
    let ?r = "save_message prep w (dict_get kvs ''sender_id'' JNull) (strip s)"
    have "users (world_of (receive prep w frame)) = users (world_of ?r) \<and>
          messages (world_of (receive prep w frame)) = messages (world_of ?r)"
      using Decoded d by (simp add: receive_def Let_def split: outcome.splits)
    then show ?thesis
      using save_message_cases[of prep w "dict_get kvs ''sender_id'' JNull" "strip s"]
      by auto
  qed
qed

lemma senders_exist_append:
  "senders_exist w \<Longrightarrow> users w' = users w \<Longrightarrow>
   messages w' = messages w \<or>
     (\<exists>k c t. users w k \<noteq> None \<and>
        messages w' = messages w @ [\<lparr>sender = Some k, content = c, timestamp = t\<rparr>]) \<Longrightarrow>
   senders_exist w'"
  by (auto simp: senders_exist_def)

lemma close_frame [simp]:
  "users (close w c) = users w"
  "messages (close w c) = messages w"
  by (simp_all add: close_def)

text \<open>Every step keeps every row's sender a key of the User table.\<close>

lemma step_senders_exist:
  assumes "senders_exist w"
  shows "senders_exist (step prep w a)"
proof (cases a)
  case (Connect c)
  then show ?thesis
    using assms by (simp add: senders_exist_def connect_def accept_def group_add_def)
next
  case (Disconnect c)
  then show ?thesis
    using assms by (simp add: senders_exist_def disconnect_def group_discard_def)
next
  case (Receive c frame)
  have "senders_exist (world_of (receive prep w frame))"
    using senders_exist_append[OF assms, of "world_of (receive prep w frame)"]
      receive_cases[of prep w frame]
    by blast
  then show ?thesis
    using Receive assms by (auto simp: senders_exist_def split: outcome.splits)
next
  case (TransportLost c)
  then show ?thesis
    using assms by (simp add: senders_exist_def)
next
  case (Create fk c)
  show ?thesis
    unfolding Create step.simps
    using senders_exist_append[OF assms, of "world_of (Message_objects_create w fk c)"]
      create_cases[of w fk c]
    by blast
next
  case (Edit i c)
  have "senders_exist (world_of (Message_save w i c))"
  proof (cases "db_writable w \<and> i < length (messages w)")
    case False
    then show ?thesis
      using assms by (auto simp: Message_save_def)
  next
    case True
    then have e: "world_of (Message_save w i c) =
        w\<lparr>messages := (messages w)[i := (messages w ! i)\<lparr>content := c\<rparr>]\<rparr>"
      by (simp add: Message_save_def post_save_def broadcast_message_def Let_def)
    have "messages w ! i \<in> set (messages w)"
      using True by simp
    then obtain k e' where "sender (messages w ! i) = Some k" "users w k = Some e'"
      using assms unfolding senders_exist_def by blast
    then show ?thesis
      unfolding e using assms
      by (auto simp: senders_exist_def dest!: set_update_subset_insert[THEN subsetD])
  qed
  then show ?thesis
    using Edit by simp
next
  case (AddUser k e)
  then show ?thesis
    using assms by (fastforce simp: senders_exist_def)
next
  case (DeleteUser k)
  then show ?thesis
    using assms by (fastforce simp: senders_exist_def)
next
  case Tick
  then show ?thesis
    using assms by (simp add: senders_exist_def)
next
  case (Database r wr)
  then show ?thesis
    using assms by (simp add: senders_exist_def)
qed

lemma run_senders_exist: "senders_exist w \<Longrightarrow> senders_exist (run prep w acts)"
  unfolding run_def by (induction acts arbitrary: w) (simp_all add: step_senders_exist)

text \<open>The page is the tail of the table sorted by timestamp.\<close>

lemma page_eq:
  "rev (take 50 (order_by_desc_timestamp ms)) = drop (length ms - 50) (sort_key timestamp ms)"
  by (simp add: order_by_desc_timestamp_def take_rev)

lemma sorted_take_le_drop:
  assumes "sorted (map f xs)" "x \<in> set (take n xs)" "y \<in> set (drop n xs)"
  shows "f x \<le> f y"
proof -
  have "sorted (map f (take n xs) @ map f (drop n xs))"
    using assms(1) by (simp flip: map_append)
  then show ?thesis
    using assms(2,3) by (auto simp: sorted_append)
qed

text \<open>
  The except clause of \<open>receive\<close> does not cover a frame that decodes to something other
  than an object, nor a message that is no string: AttributeError leaves the handler.
\<close>

lemma receive_non_object_raises:
  "receive prep w (Decoded (JList xs)) = Raise AttributeError w"
  "receive prep w (Decoded (JInt n)) = Raise AttributeError w"
  "receive prep w (Decoded (JStr t)) = Raise AttributeError w"
  "receive prep w (Decoded JNull) = Raise AttributeError w"
  "receive prep w (Decoded (JDict [(''message'', JInt n)])) = Raise AttributeError w"
  by (simp_all add: receive_def dict_get_def)

text \<open>
  Nor does it cover what the decoder raises other than JSONDecodeError: a plain
  ValueError or a RecursionError leaves the handler too.
\<close>

lemma receive_decoder_error_escapes:
  "e \<noteq> JSONDecodeError \<Longrightarrow> e \<noteq> KeyError \<Longrightarrow> receive prep w (Raises e) = Raise e w"
  by (simp add: receive_def)

lemma receive_decoder_ValueError:
  "receive prep w (Raises ValueError) = Raise ValueError w"
  "receive prep w (Raises RecursionError) = Raise RecursionError w"
  by (simp_all add: receive_def)

lemma receive_valid:
  assumes "dict_get kvs ''message'' (JStr []) = JStr s" and "strip s \<noteq> []"
    and "prep (dict_get kvs ''sender_id'' JNull) = Inr (Some k)" and "users w k = Some email"
    and "db_readable w" and "db_writable w"
  shows "receive prep w (Decoded (JDict kvs)) =
    Return ()
      (group_send
         (group_send
            (w\<lparr>messages := messages w @
                 [\<lparr>sender = Some k, content = strip s, timestamp = clock w\<rparr>]\<rparr>)
            CHAT_GROUP \<lparr>etype = ''chat_message'', emessage = strip s, esender = email\<rparr>)
         CHAT_GROUP
         \<lparr>etype = ''chat_message'', emessage = strip s, esender = or_Anonymous (Some email)\<rparr>)"
  using assms
  by (simp add: receive_def save_message_def save_message_body_def User_objects_get_def
      create_ok Let_def)

lemma receive_unknown:
  assumes "dict_get kvs ''message'' (JStr []) = JStr s" and "strip s \<noteq> []"
    and "prep (dict_get kvs ''sender_id'' JNull) = Inr key" and "db_readable w"
    and "case key of None \<Rightarrow> True | Some k \<Rightarrow> users w k = None"
  shows "receive prep w (Decoded (JDict kvs)) =
    Return () (group_send w CHAT_GROUP
      \<lparr>etype = ''chat_message'', emessage = strip s, esender = ''Anonymous''\<rparr>)"
  using assms
  by (simp add: receive_def save_message_def save_message_body_def User_get_missing
      or_Anonymous_def Let_def)

text \<open>When the database answers no read, the lookup itself raises and nothing happens.\<close>

lemma receive_lookup_failure:
  assumes "dict_get kvs ''message'' (JStr []) = JStr s" and "strip s \<noteq> []"
    and "prep (dict_get kvs ''sender_id'' JNull) = Inr key" and "\<not> db_readable w"
  shows "receive prep w (Decoded (JDict kvs)) = Raise DatabaseError w"
  using assms
  by (simp add: receive_def save_message_def save_message_body_def User_objects_get_def Let_def)


section \<open>The claims\<close>

subsection \<open>Submission by a client\<close>

text \<open>
  Claim C1 says that a successful submit of a client's message with content c issues
  exactly one BroadcastEvent carrying c. On the code a frame with non-blank content and
  a sender that resolves issues two: \<open>Message_objects_create\<close> fires post_save, whose
  receiver \<open>broadcast_message\<close> calls \<open>group_send\<close>, and \<open>receive\<close> then calls \<open>group_send\<close>
  itself. The handler returns normally, one row is persisted, the log of \<open>group_send\<close>
  grows by two events with the content, and every joined member whose write succeeds is
  written two frames.
\<close>

theorem receive_valid_frame_broadcasts_twice:
  assumes "dict_get kvs ''message'' (JStr []) = JStr s" and "strip s \<noteq> []"
    and "prep (dict_get kvs ''sender_id'' JNull) = Inr (Some k)" and "users w k = Some email"
    and "db_readable w" and "db_writable w"
  shows "raised (receive prep w (Decoded (JDict kvs))) = None \<and>
    messages (world_of (receive prep w (Decoded (JDict kvs)))) =
      messages w @ [\<lparr>sender = Some k, content = strip s, timestamp = clock w\<rparr>] \<and>
    sent (world_of (receive prep w (Decoded (JDict kvs)))) =
      sent w @
      [(CHAT_GROUP, \<lparr>etype = ''chat_message'', emessage = strip s, esender = email\<rparr>),
       (CHAT_GROUP, \<lparr>etype = ''chat_message'', emessage = strip s,
          esender = or_Anonymous (Some email)\<rparr>)] \<and>
    (\<forall>ch\<in>groups w CHAT_GROUP.
       conn (sessions w ch) = Joined \<and> transport_ok (sessions w ch) \<longrightarrow>
       outbox (sessions (world_of (receive prep w (Decoded (JDict kvs)))) ch) =
         outbox (sessions w ch) @
         [JDict [(''message'', JStr (strip s)), (''sender'', JStr email)],
          JDict [(''message'', JStr (strip s)), (''sender'', JStr (or_Anonymous (Some email)))]])"
proof -
  note r = receive_valid[of kvs s prep k w email, OF assms]
  have a: "raised (receive prep w (Decoded (JDict kvs))) = None"
    by (simp add: r)
  have b: "messages (world_of (receive prep w (Decoded (JDict kvs)))) =
      messages w @ [\<lparr>sender = Some k, content = strip s, timestamp = clock w\<rparr>]"
    by (simp add: r)
  have c: "sent (world_of (receive prep w (Decoded (JDict kvs)))) =
      sent w @
      [(CHAT_GROUP, \<lparr>etype = ''chat_message'', emessage = strip s, esender = email\<rparr>),
       (CHAT_GROUP, \<lparr>etype = ''chat_message'', emessage = strip s,
          esender = or_Anonymous (Some email)\<rparr>)]"
    by (simp add: r)
  have d: "\<forall>ch\<in>groups w CHAT_GROUP.
       conn (sessions w ch) = Joined \<and> transport_ok (sessions w ch) \<longrightarrow>
       outbox (sessions (world_of (receive prep w (Decoded (JDict kvs)))) ch) =
         outbox (sessions w ch) @
         [JDict [(''message'', JStr (strip s)), (''sender'', JStr email)],
          JDict [(''message'', JStr (strip s)), (''sender'', JStr (or_Anonymous (Some email)))]]"
    by (simp add: r group_send_def deliver_ok)
  show ?thesis
    using a b c d by blast
qed

theorem receive_hello_broadcasts_twice:
  "raised (receive plain_pk demo hello) = None \<and>
   sent (world_of (receive plain_pk demo hello)) =
     [(''chat_room'', \<lparr>etype = ''chat_message'', emessage = ''hello'',
         esender = ''ann@example.org''\<rparr>),
      (''chat_room'', \<lparr>etype = ''chat_message'', emessage = ''hello'',
         esender = ''ann@example.org''\<rparr>)] \<and>
   outbox (sessions (world_of (receive plain_pk demo hello)) ''B'') =
     [JDict [(''message'', JStr ''hello''), (''sender'', JStr ''ann@example.org'')],
      JDict [(''message'', JStr ''hello''), (''sender'', JStr ''ann@example.org'')]]"
  using receive_valid_frame_broadcasts_twice[of "[(''message'', JStr ''hello''), (''sender_id'', JInt 1)]"
      "''hello''" plain_pk 1 demo "''ann@example.org''"]
  by (simp add: hello_def dict_get_def strip_hello plain_pk_def demo_def or_Anonymous_def
      CHAT_GROUP_def joined_def)

text \<open>
  Claim C2 says that a message whose sender_id refers to no user is still persisted,
  with a null sender, and broadcast as Anonymous. On the code \<open>save_message\<close> creates the
  row only after the lookup has succeeded, so nothing is persisted. As amended: when the
  lookup finds no user, the handler returns normally, the Message table is unchanged, and
  exactly one event with the content and the sender name Anonymous is issued.
\<close>

theorem receive_unknown_sender_broadcasts_unpersisted:
  assumes "dict_get kvs ''message'' (JStr []) = JStr s" and "strip s \<noteq> []"
    and "prep (dict_get kvs ''sender_id'' JNull) = Inr key" and "db_readable w"
    and "case key of None \<Rightarrow> True | Some k \<Rightarrow> users w k = None"
  shows "raised (receive prep w (Decoded (JDict kvs))) = None \<and>
    messages (world_of (receive prep w (Decoded (JDict kvs)))) = messages w \<and>
    sent (world_of (receive prep w (Decoded (JDict kvs)))) =
      sent w @
      [(CHAT_GROUP, \<lparr>etype = ''chat_message'', emessage = strip s, esender = ''Anonymous''\<rparr>)]"
  by (simp add: receive_unknown[of kvs s prep key w, OF assms])

theorem receive_unknown_sender_witness:
  "raised (receive plain_pk demo hi_from_99) = None \<and>
   messages (world_of (receive plain_pk demo hi_from_99)) = messages demo \<and>
   sent (world_of (receive plain_pk demo hi_from_99)) =
     [(''chat_room'', \<lparr>etype = ''chat_message'', emessage = ''hi'', esender = ''Anonymous''\<rparr>)]"
  using receive_unknown_sender_broadcasts_unpersisted[of
      "[(''message'', JStr ''hi''), (''sender_id'', JInt 99)]" "''hi''" plain_pk "Some 99" demo]
  by (simp add: hi_from_99_def dict_get_def strip_hi plain_pk_def demo_def CHAT_GROUP_def)

text \<open>
  The counterexample to C2 as stated: after the frame with sender_id 99 the Message
  table is still empty.
\<close>

theorem unknown_sender_not_persisted:
  "messages (world_of (receive plain_pk demo hi_from_99)) = []"
  by (simp add: receive_def hi_from_99_def dict_get_def strip_hi save_message_def
      save_message_body_def User_objects_get_def plain_pk_def demo_def Let_def)




text \<open>
  Claim C4 says that a failing append aborts the submission silently: no broadcast and
  no error at the sender's session. On the code nothing catches the failure. As amended:
  when the sender resolves and the insert fails, nothing is persisted and nothing is
  broadcast (the state is unchanged), and the failure leaves \<open>receive\<close> as an exception.
\<close>

theorem receive_store_failure_raises:
  assumes "dict_get kvs ''message'' (JStr []) = JStr s" and "strip s \<noteq> []"
    and "prep (dict_get kvs ''sender_id'' JNull) = Inr (Some k)" and "users w k = Some email"
    and "db_readable w" and "\<not> db_writable w"
  shows "receive prep w (Decoded (JDict kvs)) = Raise DatabaseError w"
  using assms
  by (simp add: receive_def save_message_def save_message_body_def User_objects_get_def
      Message_objects_create_def Let_def)

theorem receive_store_failure_witness:
  "receive plain_pk (demo\<lparr>db_writable := False\<rparr>) hello =
     Raise DatabaseError (demo\<lparr>db_writable := False\<rparr>)"
  using receive_store_failure_raises[of "[(''message'', JStr ''hello''), (''sender_id'', JInt 1)]"
      "''hello''" plain_pk 1 "demo\<lparr>db_writable := False\<rparr>" "''ann@example.org''"]
  by (simp add: hello_def dict_get_def strip_hello plain_pk_def demo_def)

text \<open>
  The counterexample to C4 as stated: with the store refusing writes, the handler does
  not return; DatabaseError leaves it.
\<close>

theorem store_failure_surfaces:
  "raised (receive plain_pk (demo\<lparr>db_writable := False\<rparr>) hello) = Some DatabaseError"
  by (simp add: receive_def hello_def dict_get_def strip_hello save_message_def
      save_message_body_def User_objects_get_def plain_pk_def demo_def Let_def
      Message_objects_create_def)

text \<open>
  Claim C5: a frame whose content is empty or consists of whitespace only appends no
  message and issues no event. The handler returns with the state it was given.
\<close>

theorem receive_blank_content_discarded:
  assumes "dict_get kvs ''message'' (JStr []) = JStr s" and "\<forall>c\<in>set s. py_isspace c"
  shows "receive prep w (Decoded (JDict kvs)) = Return () w"
  using assms by (simp add: receive_def strip_Nil_iff)

theorem receive_blank_content_witness:
  "receive plain_pk demo (Decoded (JDict [(''message'', JStr ''  ''), (''sender_id'', JInt 1)])) =
     Return () demo \<and>
   receive plain_pk demo (Decoded (JDict [(''message'', JStr []), (''sender_id'', JInt 1)])) =
     Return () demo"
  using receive_blank_content_discarded[of "[(''message'', JStr ''  ''), (''sender_id'', JInt 1)]"
      "''  ''" plain_pk demo]
    receive_blank_content_discarded[of "[(''message'', JStr []), (''sender_id'', JInt 1)]"
      "[]" plain_pk demo]
  by (simp add: dict_get_def py_isspace_def)

subsection \<open>The post_save receiver\<close>

text \<open>
  Claim C6: a Message created in the store by an actor other than the consumer triggers
  exactly one broadcast of its content to the members of the room, and an update of an
  existing Message triggers none. The create returns, the log grows by exactly one event
  with the content and the sender's email, and every joined member whose write succeeds
  is written exactly one frame; a save of an existing row changes neither the log nor
  any session.
\<close>

theorem created_message_broadcast_once:
  assumes "db_writable w" and "users w k = Some email"
  shows "raised (Message_objects_create w (Some k) c) = None \<and>
    sent (world_of (Message_objects_create w (Some k) c)) =
      sent w @ [(CHAT_GROUP, \<lparr>etype = ''chat_message'', emessage = c, esender = email\<rparr>)] \<and>
    (\<forall>ch\<in>groups w CHAT_GROUP.
       conn (sessions w ch) = Joined \<and> transport_ok (sessions w ch) \<longrightarrow>
       outbox (sessions (world_of (Message_objects_create w (Some k) c)) ch) =
         outbox (sessions w ch) @ [JDict [(''message'', JStr c), (''sender'', JStr email)]]) \<and>
    sent (world_of (Message_save w i c')) = sent w \<and>
    sessions (world_of (Message_save w i c')) = sessions w"
proof -
  note r = create_ok[OF assms, of c]
  have a: "raised (Message_objects_create w (Some k) c) = None"
    by (simp add: r)
  have b: "sent (world_of (Message_objects_create w (Some k) c)) =
      sent w @ [(CHAT_GROUP, \<lparr>etype = ''chat_message'', emessage = c, esender = email\<rparr>)]"
    by (simp add: r)
  have d: "\<forall>ch\<in>groups w CHAT_GROUP.
       conn (sessions w ch) = Joined \<and> transport_ok (sessions w ch) \<longrightarrow>
       outbox (sessions (world_of (Message_objects_create w (Some k) c)) ch) =
         outbox (sessions w ch) @ [JDict [(''message'', JStr c), (''sender'', JStr email)]]"
    by (simp add: r group_send_def deliver_ok)
  have e: "sent (world_of (Message_save w i c')) = sent w \<and>
      sessions (world_of (Message_save w i c')) = sessions w"
    by (simp add: Message_save_def post_save_def broadcast_message_def Let_def)
  show ?thesis
    using a b d e by blast
qed

theorem created_message_witness:
  "sent (world_of (Message_objects_create demo (Some 1) ''news'')) =
     [(''chat_room'', \<lparr>etype = ''chat_message'', emessage = ''news'',
         esender = ''ann@example.org''\<rparr>)] \<and>
   outbox (sessions (world_of (Message_objects_create demo (Some 1) ''news'')) ''A'') =
     [JDict [(''message'', JStr ''news''), (''sender'', JStr ''ann@example.org'')]] \<and>
   outbox (sessions (world_of (Message_objects_create demo (Some 1) ''news'')) ''B'') =
     [JDict [(''message'', JStr ''news''), (''sender'', JStr ''ann@example.org'')]]"
  using created_message_broadcast_once[of demo 1 "''ann@example.org''" "''news''"]
  by (simp add: demo_def CHAT_GROUP_def joined_def)

subsection \<open>The group registry and the dispatch\<close>

text \<open>
  Claim C7: leaving is idempotent. \<open>disconnect\<close> raises nothing, a second \<open>disconnect\<close>
  for the same member changes nothing after the first, and \<open>disconnect\<close> for a member that
  is not in the room changes nothing at all.
\<close>

theorem disconnect_idempotent:
  "raised (disconnect w c) = None \<and>
   disconnect (world_of (disconnect w c)) c = disconnect w c \<and>
   (c \<notin> groups w CHAT_GROUP \<longrightarrow> disconnect w c = Return () w)"
  by (simp add: disconnect_def group_discard_def)

theorem disconnect_idempotent_witness:
  "groups (world_of (disconnect demo ''A'')) ''chat_room'' = {''B''} \<and>
   disconnect (world_of (disconnect demo ''A'')) ''A'' = disconnect demo ''A'' \<and>
   disconnect demo ''C'' = Return () demo"
  using disconnect_idempotent[of demo "''A''"] disconnect_idempotent[of demo "''C''"]
  by (auto simp: disconnect_def group_discard_def demo_def CHAT_GROUP_def)




subsection \<open>The chat page\<close>

text \<open>
  Claim C9: the page-load read path returns at most the 50 most recent messages, oldest
  first. When the database answers, the view returns a page that has 50 rows or the whole
  table if that is shorter, is ordered by ascending timestamp, consists of rows of the
  table, and leaves out no row that is more recent than a row it shows.
\<close>

theorem chat_page_latest_fifty:
  assumes "db_readable w"
  shows "\<exists>page. ChatPageView_get w = Return page w \<and>
     length page = min 50 (length (messages w)) \<and>
     sorted (map timestamp page) \<and>
     mset page \<subseteq># mset (messages w) \<and>
     (\<forall>old\<in>#mset (messages w) - mset page. \<forall>m\<in>set page. timestamp old \<le> timestamp m)"
proof -
  let ?xs = "sort_key timestamp (messages w)"
  let ?n = "length (messages w) - 50"
  let ?page = "drop ?n ?xs"
  have r: "ChatPageView_get w = Return ?page w"
    using assms by (simp add: ChatPageView_get_def page_eq)
  have l: "length ?page = min 50 (length (messages w))"
    by auto
  have s: "sorted (map timestamp ?page)"
    by (simp add: sorted_wrt_drop flip: drop_map)
  have m: "mset (messages w) = mset (take ?n ?xs) + mset ?page"
    by (metis append_take_drop_id mset_append mset_sort)
  have sub: "mset ?page \<subseteq># mset (messages w)"
    using m by simp
  have d: "mset (messages w) - mset ?page = mset (take ?n ?xs)"
    using m by simp
  have rec: "\<forall>old\<in>#mset (messages w) - mset ?page. \<forall>m\<in>set ?page.
      timestamp old \<le> timestamp m"
    unfolding d using sorted_take_le_drop[of timestamp ?xs _ ?n] by auto
  show ?thesis
    using r l s sub rec by blast
qed

lemma busy_page:
  "map timestamp (rev (take 50 (order_by_desc_timestamp (messages busy)))) = [2..<52]"
  unfolding busy_def by code_simp

theorem chat_page_witness:
  "length (messages busy) = 52 \<and>
   (\<exists>page. ChatPageView_get busy = Return page busy \<and> length page = 50 \<and>
      map timestamp page = [2..<52] \<and> mset page \<subseteq># mset (messages busy))"
proof -
  have r: "db_readable busy"
    by (simp add: busy_def demo_def)
  have n: "length (messages busy) = 52"
    by (simp add: busy_def)
  have e: "ChatPageView_get busy =
      Return (rev (take 50 (order_by_desc_timestamp (messages busy)))) busy"
    using r by (simp add: ChatPageView_get_def)
  show ?thesis
    using chat_page_latest_fifty[OF r] n e busy_page by auto
qed

subsection \<open>The Message table\<close>

text \<open>
  Claim C10: every Message row that the system ever persists has a sender that is not
  null and is a row of User. From the empty tables, whatever happens (frames of any
  content, creates with any foreign key, edits, users added and deleted, database
  failures), each row of the Message table has a sender key that the User table holds.
\<close>

theorem persisted_messages_have_existing_sender:
  "\<forall>m\<in>set (messages (run prep initial acts)).
     \<exists>k e. sender m = Some k \<and> users (run prep initial acts) k = Some e"
proof -
  have "senders_exist initial"
    by (simp add: senders_exist_def initial_def)
  then have "senders_exist (run prep initial acts)"
    by (rule run_senders_exist)
  then show ?thesis
    by (simp add: senders_exist_def)
qed

lemma run_demo_acts:
  "messages (run plain_pk initial demo_acts) =
     [\<lparr>sender = Some 1, content = ''hello'', timestamp = 0\<rparr>,
      \<lparr>sender = Some 2, content = ''news'', timestamp = 1\<rparr>]"
  by code_simp

theorem persisted_messages_witness:
  "length (messages (run plain_pk initial demo_acts)) = 2 \<and>
   (\<exists>k e. sender (hd (messages (run plain_pk initial demo_acts))) = Some k \<and>
      users (run plain_pk initial demo_acts) k = Some e)"
proof -
  have "hd (messages (run plain_pk initial demo_acts)) \<in> set (messages (run plain_pk initial demo_acts))"
    by (simp add: run_demo_acts)
  then show ?thesis
    using persisted_messages_have_existing_sender[of plain_pk demo_acts]
    by (simp add: run_demo_acts)
qed

end
